theory Spec2Isabelle
  imports Main
begin

section \<open>Python values, HTTP responses and exceptions\<close>

text \<open>
  The plugins call the \<^verbatim>\<open>requests\<close> library, \<^verbatim>\<open>urllib.parse\<close> and BeautifulSoup.
  These collaborators are not part of the repository: they are the fields of the record
  \<open>env\<close> below, and every function of the repository takes the environment as its first
  argument. Each public operation sends at most one request per backend, so for the
  duration of one call the network is a function from the request to its outcome.

  Python strings are modelled as \<open>string\<close>. A value decoded from a JSON body (and hence
  any result a backend can hand back) is a \<open>pyval\<close>; JSON numbers are integers here.
\<close>

datatype pyval =
    PNone
  | PBool bool
  | PInt int
  | PStr string
  | PList "pyval list"
  | PDict "(string \<times> pyval) list"

text \<open>
  \<^verbatim>\<open>requests.Response\<close>: \<open>headers\<close> is the case-insensitive header dictionary, queried
  with a lower-case name; \<open>json_body\<close> is what \<^verbatim>\<open>r.json()\<close> decodes, \<open>None\<close> when the
  body is not JSON.
\<close>

record response =
  status_code :: nat
  reason :: string
  headers :: "string \<Rightarrow> string option"
  text_r :: string
  json_body :: "pyval option"

text \<open>
  The exceptions that occur. \<open>HTTPError\<close>, \<open>ConnectionError\<close> and
  \<open>OtherRequestException\<close> (a timeout while reading, too many redirects, an invalid
  URL, ...) are the subclasses of \<^verbatim>\<open>requests.RequestException\<close>; \<open>KeyError\<close> is a
  subclass of \<^verbatim>\<open>LookupError\<close>. \<open>ServiceError\<close> is the repository's own class and
  carries its \<^verbatim>\<open>message\<close> and \<^verbatim>\<open>request\<close> attributes.
\<close>

datatype exn =
    ServiceError pyval response
  | HTTPError response
  | ConnectionError
  | OtherRequestException
  | KeyError string
  | ValueError
  | TypeError
  | AttributeError
  | NotImplementedError

fun is_ServiceError :: "exn \<Rightarrow> bool" where
  "is_ServiceError (ServiceError m r) = True"
| "is_ServiceError e = False"

fun is_ConnectionError :: "exn \<Rightarrow> bool" where
  "is_ConnectionError ConnectionError = True"
| "is_ConnectionError e = False"

fun is_LookupError :: "exn \<Rightarrow> bool" where
  "is_LookupError (KeyError k) = True"
| "is_LookupError e = False"

datatype body =
    NoBody
  | Raw string
  | Form "(string \<times> string option) list"
  | JsonDumps pyval

record request =
  http_method :: string
  url_of :: string
  params :: "(string \<times> string option) list"
  data_of :: body
  req_headers :: "(string \<times> string) list"
  allow_redirects :: bool

text \<open>The five components of \<^verbatim>\<open>urllib.parse.urlsplit\<close>; \<^verbatim>\<open>urlparse\<close> has the same \<open>netloc\<close>.\<close>

record url_parts =
  scheme :: string
  netloc :: string
  path :: string
  query :: string
  fragment :: string

record env =
  http :: "request \<Rightarrow> exn + response"
  urlparse :: "string \<Rightarrow> exn + url_parts"
  urlsplit :: "string \<Rightarrow> exn + url_parts"
  soup_find_text :: "string \<Rightarrow> string \<Rightarrow> string \<Rightarrow> string option"
  str_of :: "pyval \<Rightarrow> string"

text \<open>
  \<open>soup_find_text e markup tag ident\<close> is the \<^verbatim>\<open>.text\<close> of the first \<open>tag\<close> element with
  that id in the parsed markup, \<open>None\<close> when \<^verbatim>\<open>find\<close> returns \<^verbatim>\<open>None\<close>. \<open>str_of e v\<close> is
  Python's \<^verbatim>\<open>str(v)\<close>, which \<^verbatim>\<open>str.format\<close> applies to a \<^verbatim>\<open>{}\<close> field.
\<close>

definition requests_get :: "env \<Rightarrow> string \<Rightarrow> (string \<times> string option) list \<Rightarrow> bool \<Rightarrow> exn + response" where
  "requests_get e u p redir =
     http e \<lparr>http_method = ''GET'', url_of = u, params = p, data_of = NoBody,
             req_headers = [], allow_redirects = redir\<rparr>"

definition requests_post ::
  "env \<Rightarrow> string \<Rightarrow> (string \<times> string option) list \<Rightarrow> body \<Rightarrow> (string \<times> string) list \<Rightarrow> exn + response" where
  "requests_post e u p d h =
     http e \<lparr>http_method = ''POST'', url_of = u, params = p, data_of = d,
             req_headers = h, allow_redirects = True\<rparr>"

text \<open>\<^verbatim>\<open>Response.raise_for_status\<close>: an \<open>HTTPError\<close> for a 4xx or 5xx status.\<close>

definition raise_for_status :: "response \<Rightarrow> exn + unit" where
  "raise_for_status r =
     (if 400 \<le> status_code r \<and> status_code r < 600 then Inl (HTTPError r) else Inr ())"

definition codes_ok :: nat where
  "codes_ok = 200"

definition codes_created :: nat where
  "codes_created = 201"

definition response_json :: "response \<Rightarrow> exn + pyval" where
  "response_json r = (case json_body r of None \<Rightarrow> Inl ValueError | Some j \<Rightarrow> Inr j)"

subsection \<open>Strings\<close>

text \<open>\<open>startswith s p\<close> is \<^verbatim>\<open>s.startswith(p)\<close>, and \<open>str_contains s sub\<close> is \<^verbatim>\<open>sub in s\<close>.\<close>

fun startswith :: "string \<Rightarrow> string \<Rightarrow> bool" where
  "startswith s [] = True"
| "startswith [] (c # p) = False"
| "startswith (d # s) (c # p) = (d = c \<and> startswith s p)"

fun str_contains :: "string \<Rightarrow> string \<Rightarrow> bool" where
  "str_contains [] sub = (sub = [])"
| "str_contains (c # cs) sub = (startswith (c # cs) sub \<or> str_contains cs sub)"

text \<open>
  \<^verbatim>\<open>str.strip()\<close>: the characters below 256 that Python counts as whitespace are
  9 to 13, 28 to 32, 133 and 160.
\<close>

definition isspace :: "char \<Rightarrow> bool" where
  "isspace c =
     (let n = of_char c :: nat
      in (9 \<le> n \<and> n \<le> 13) \<or> (28 \<le> n \<and> n \<le> 32) \<or> n = 133 \<or> n = 160)"

definition strip :: "string \<Rightarrow> string" where
  "strip s = rev (dropWhile isspace (rev (dropWhile isspace s)))"

subsection \<open>Dictionaries\<close>

text \<open>
  A \<^verbatim>\<open>dict\<close> keeps its keys in insertion order: an association list with distinct
  keys. \<open>dict_setitem\<close> is \<^verbatim>\<open>d[k] = v\<close>, \<open>dict_getitem\<close> is \<^verbatim>\<open>d[k]\<close>, \<open>dict_pop\<close> is
  \<^verbatim>\<open>d.pop(k, default)\<close> and \<open>dict_popitem\<close> is \<^verbatim>\<open>d.popitem()\<close>, which removes the pair
  inserted last and raises \<open>KeyError\<close> on an empty dictionary.
\<close>

type_synonym 'v dict = "(string \<times> 'v) list"

fun dict_setitem :: "'v dict \<Rightarrow> string \<Rightarrow> 'v \<Rightarrow> 'v dict" where
  "dict_setitem [] k v = [(k, v)]"
| "dict_setitem ((k', v') # d) k v =
     (if k' = k then (k, v) # d else (k', v') # dict_setitem d k v)"

definition dict_getitem :: "'v dict \<Rightarrow> string \<Rightarrow> exn + 'v" where
  "dict_getitem d k = (case map_of d k of None \<Rightarrow> Inl (KeyError k) | Some v \<Rightarrow> Inr v)"

fun dict_delete :: "'v dict \<Rightarrow> string \<Rightarrow> 'v dict" where
  "dict_delete [] k = []"
| "dict_delete ((k', v') # d) k = (if k' = k then d else (k', v') # dict_delete d k)"

definition dict_pop :: "'v dict \<Rightarrow> string \<Rightarrow> 'v option \<Rightarrow> 'v option \<times> 'v dict" where
  "dict_pop d k dflt =
     (case map_of d k of None \<Rightarrow> (dflt, d) | Some v \<Rightarrow> (Some v, dict_delete d k))"

definition dict_popitem :: "'v dict \<Rightarrow> exn + ((string \<times> 'v) \<times> 'v dict)" where
  "dict_popitem d =
     (if d = [] then Inl (KeyError ''popitem(): dictionary is empty'')
      else Inr (last d, butlast d))"

text \<open>What \<^verbatim>\<open>'k' in j\<close> and \<^verbatim>\<open>j['k']\<close> do on a decoded JSON value \<open>j\<close>.\<close>

fun py_contains :: "pyval \<Rightarrow> string \<Rightarrow> exn + bool" where
  "py_contains (PDict d) k = Inr (map_of d k \<noteq> None)"
| "py_contains (PList l) k = Inr (PStr k \<in> set l)"
| "py_contains (PStr s) k = Inr (str_contains s k)"
| "py_contains j k = Inl TypeError"

fun py_getitem :: "pyval \<Rightarrow> string \<Rightarrow> exn + pyval" where
  "py_getitem (PDict d) k = dict_getitem d k"
| "py_getitem j k = Inl TypeError"

section \<open>cloudbot/util/web.py\<close>

definition DEFAULT_SHORTENER :: string where
  "DEFAULT_SHORTENER = ''is.gd''"

definition DEFAULT_PASTEBIN :: string where
  "DEFAULT_PASTEBIN = ''hastebin''"

definition HASTEBIN_SERVER :: string where
  "HASTEBIN_SERVER = ''https://hastebin.com''"

text \<open>
  The pattern every backend repeats after its request:
  \<^verbatim>\<open>
  try:
      r.raise_for_status()
  except RequestException as e:
      r = e.response
      raise ServiceError(r.reason, r)
  \<close>
  Only \<^verbatim>\<open>raise_for_status\<close> is inside the \<^verbatim>\<open>try\<close>; the request itself is sent before it,
  so an exception of the request is not converted.
\<close>

definition check_status :: "response \<Rightarrow> exn + response" where
  "check_status r =
     (case raise_for_status r of
        Inl (HTTPError r') \<Rightarrow> Inl (ServiceError (PStr (reason r')) r')
      | Inl e \<Rightarrow> Inl e
      | Inr u \<Rightarrow> Inr r)"

subsection \<open>Pastebins\<close>

text \<open>
  The classes: \<open>Pastebin\<close> is the base class, whose \<^verbatim>\<open>paste\<close> raises
  \<^verbatim>\<open>NotImplementedError\<close>; \<open>Hastebin\<close> is the backend of this file; \<open>Pastebin_subclass\<close>
  is any other subclass that a plugin registers with \<^verbatim>\<open>_pastebin\<close>, given by its \<^verbatim>\<open>paste\<close>
  method. None of them defines \<^verbatim>\<open>__bool__\<close> or \<^verbatim>\<open>__len__\<close>, so an instance is true.

  \<^verbatim>\<open>Hastebin.paste\<close> compares the status with \<^verbatim>\<open>r.status_code is requests.codes.ok\<close>; both
  are the integer 200 when the test holds, and CPython shares the objects of small
  integers, so the test is the equality of the two numbers.
\<close>

datatype pastebin =
    Pastebin
  | Hastebin
  | Pastebin_subclass "env \<Rightarrow> string \<Rightarrow> string \<Rightarrow> exn + pyval"

definition Hastebin_paste :: "env \<Rightarrow> string \<Rightarrow> string \<Rightarrow> exn + pyval" where
  "Hastebin_paste e data ext =
     (case requests_post e (HASTEBIN_SERVER @ ''/documents'') [] (Raw data) [] of
        Inl ex \<Rightarrow> Inl ex
      | Inr r0 \<Rightarrow>
          (case check_status r0 of
             Inl ex \<Rightarrow> Inl ex
           | Inr r \<Rightarrow>
               (case response_json r of
                  Inl ex \<Rightarrow> Inl ex
                | Inr j \<Rightarrow>
                    if status_code r = codes_ok then
                      (case py_getitem j ''key'' of
                         Inl ex \<Rightarrow> Inl ex
                       | Inr k \<Rightarrow> Inr (PStr (HASTEBIN_SERVER @ ''/'' @ str_of e k @ ''.'' @ ext)))
                    else
                      (case py_getitem j ''message'' of
                         Inl ex \<Rightarrow> Inl ex
                       | Inr m \<Rightarrow> Inl (ServiceError m r)))))"

fun paste_m :: "pastebin \<Rightarrow> env \<Rightarrow> string \<Rightarrow> string \<Rightarrow> exn + pyval" where
  "paste_m Pastebin e data ext = Inl NotImplementedError"
| "paste_m Hastebin e data ext = Hastebin_paste e data ext"
| "paste_m (Pastebin_subclass f) e data ext = f e data ext"

text \<open>
  The module's state. \<^verbatim>\<open>pastebins\<close> is a global name bound to a dictionary object, and
  \<^verbatim>\<open>paste\<close> works on \<^verbatim>\<open>pastebins.copy()\<close>, a second object: the dictionary objects live
  in a store, addressed by references, and \<open>next_ref\<close> is the next free reference.
  \<open>logged\<close> is what \<^verbatim>\<open>logger.exception\<close> has written.
\<close>

type_synonym ref = nat

record state =
  heap :: "ref \<Rightarrow> pastebin dict"
  next_ref :: ref
  logged :: "(string \<times> exn) list"

definition pastebins :: ref where
  "pastebins = 0"

definition init_state :: state where
  "init_state = \<lparr>heap = (\<lambda>r. []), next_ref = Suc pastebins, logged = []\<rparr>"

text \<open>\<^verbatim>\<open>_pastebin(name)(impl)\<close>: \<^verbatim>\<open>pastebins[name] = impl()\<close>.\<close>

definition pastebin_decorate :: "string \<Rightarrow> pastebin \<Rightarrow> state \<Rightarrow> state" where
  "pastebin_decorate name impl st =
     st\<lparr>heap := (heap st)(pastebins := dict_setitem (heap st pastebins) name impl)\<rparr>"

text \<open>The state once the module is loaded: \<^verbatim>\<open>@_pastebin('hastebin')\<close>.\<close>

definition loaded_state :: state where
  "loaded_state = pastebin_decorate ''hastebin'' Hastebin init_state"

definition ref_copy :: "ref \<Rightarrow> state \<Rightarrow> ref \<times> state" where
  "ref_copy r st =
     (next_ref st,
      st\<lparr>heap := (heap st)(next_ref st := heap st r), next_ref := Suc (next_ref st)\<rparr>)"

definition ref_pop :: "ref \<Rightarrow> string \<Rightarrow> pastebin option \<Rightarrow> state \<Rightarrow> pastebin option \<times> state" where
  "ref_pop r k dflt st =
     (case dict_pop (heap st r) k dflt of
        (v, d) \<Rightarrow> (v, st\<lparr>heap := (heap st)(r := d)\<rparr>))"

definition ref_popitem :: "ref \<Rightarrow> state \<Rightarrow> (exn + (string \<times> pastebin)) \<times> state" where
  "ref_popitem r st =
     (case dict_popitem (heap st r) of
        Inl ex \<Rightarrow> (Inl ex, st)
      | Inr (kv, d) \<Rightarrow> (Inr kv, st\<lparr>heap := (heap st)(r := d)\<rparr>))"

definition logger_exception :: "string \<Rightarrow> exn \<Rightarrow> state \<Rightarrow> state" where
  "logger_exception msg ex st = st\<lparr>logged := logged st @ [(msg, ex)]\<rparr>"

definition unable_to_paste :: pyval where
  "unable_to_paste = PStr ''Unable to paste data''"

text \<open>
  The loop of \<^verbatim>\<open>paste\<close>, entered with the current \<^verbatim>\<open>impl\<close> (\<open>None\<close> ends it) and the
  reference \<open>bins\<close> of the copy:
  \<^verbatim>\<open>
  while impl:
      try:
          return impl.paste(data, ext)
      except ServiceError:
          logger.exception("Paste failed")
      try:
          _, impl = bins.popitem()
      except LookupError:
          impl = None
  return "Unable to paste data"
  \<close>
\<close>

function paste_loop ::
  "env \<Rightarrow> string \<Rightarrow> string \<Rightarrow> pastebin option \<Rightarrow> ref \<Rightarrow> state \<Rightarrow> (exn + pyval) \<times> state" where
  "paste_loop e data ext None bins st = (Inr unable_to_paste, st)"
| "paste_loop e data ext (Some impl) bins st =
     (case paste_m impl e data ext of
        Inr v \<Rightarrow> (Inr v, st)
      | Inl ex \<Rightarrow>
          if is_ServiceError ex then
            (case ref_popitem bins (logger_exception ''Paste failed'' ex st) of
               (Inl ex2, st2) \<Rightarrow>
                 if is_LookupError ex2 then paste_loop e data ext None bins st2
                 else (Inl ex2, st2)
             | (Inr (k, impl2), st2) \<Rightarrow> paste_loop e data ext (Some impl2) bins st2)
          else (Inl ex, st))"
  by pat_completeness auto

text \<open>Every round of the loop takes one pair out of the copy, so the loop ends.\<close>

termination paste_loop
  by (relation "measure (\<lambda>(e, data, ext, impl, bins, st).
         (case impl of None \<Rightarrow> 0 | Some i \<Rightarrow> Suc (length (heap st bins))))")
     (auto simp: ref_popitem_def dict_popitem_def logger_exception_def
           split: if_splits sum.splits prod.splits)

text \<open>
  \<^verbatim>\<open>
  def paste(data, ext='txt', service=DEFAULT_PASTEBIN):
      bins = pastebins.copy()
      impl = bins.pop(service, None)
      while impl: ...
  \<close>
\<close>

definition paste :: "env \<Rightarrow> string \<Rightarrow> string \<Rightarrow> string \<Rightarrow> state \<Rightarrow> (exn + pyval) \<times> state" where
  "paste e data ext service st =
     (case ref_copy pastebins st of
        (bins, st1) \<Rightarrow>
          (case ref_pop bins service None st1 of
             (impl, st2) \<Rightarrow> paste_loop e data ext impl bins st2))"

subsection \<open>Shorteners\<close>

text \<open>
  The classes: \<open>Shortener\<close> is the base class and the generic variant, \<open>Isgd\<close>, \<open>Googl\<close>
  and \<open>Gitio\<close> are its subclasses. A subclass overrides \<^verbatim>\<open>shorten\<close>, and \<open>Isgd\<close> and
  \<open>Googl\<close> override \<^verbatim>\<open>expand\<close>; \<^verbatim>\<open>try_shorten\<close> is inherited by all.
  \<^verbatim>\<open>custom\<close> and \<^verbatim>\<open>key\<close> default to \<^verbatim>\<open>None\<close>.
\<close>

datatype shortener = Shortener | Isgd | Googl | Gitio

definition Shortener_shorten :: "env \<Rightarrow> string \<Rightarrow> string option \<Rightarrow> string option \<Rightarrow> exn + pyval" where
  "Shortener_shorten e url custom key = Inr (PStr url)"

definition Shortener_expand :: "env \<Rightarrow> string \<Rightarrow> exn + pyval" where
  "Shortener_expand e url =
     (case requests_get e url [] False of
        Inl ex \<Rightarrow> Inl ex
      | Inr r0 \<Rightarrow>
          (case check_status r0 of
             Inl ex \<Rightarrow> Inl ex
           | Inr r \<Rightarrow>
               (case headers r ''location'' of
                  Some l \<Rightarrow> Inr (PStr l)
                | None \<Rightarrow> Inl (ServiceError (PStr ''That URL does not exist'') r))))"

definition Isgd_shorten :: "env \<Rightarrow> string \<Rightarrow> string option \<Rightarrow> string option \<Rightarrow> exn + pyval" where
  "Isgd_shorten e url custom key =
     (case requests_get e ''http://is.gd/create.php''
             [(''url'', Some url), (''shorturl'', custom), (''format'', Some ''json'')] True of
        Inl ex \<Rightarrow> Inl ex
      | Inr r0 \<Rightarrow>
          (case check_status r0 of
             Inl ex \<Rightarrow> Inl ex
           | Inr r \<Rightarrow>
               (case response_json r of
                  Inl ex \<Rightarrow> Inl ex
                | Inr j \<Rightarrow>
                    (case py_contains j ''shorturl'' of
                       Inl ex \<Rightarrow> Inl ex
                     | Inr True \<Rightarrow> py_getitem j ''shorturl''
                     | Inr False \<Rightarrow>
                         (case py_getitem j ''errormessage'' of
                            Inl ex \<Rightarrow> Inl ex
                          | Inr m \<Rightarrow> Inl (ServiceError m r))))))"

definition Isgd_expand :: "env \<Rightarrow> string \<Rightarrow> exn + pyval" where
  "Isgd_expand e url =
     (case requests_get e ''http://is.gd/forward.php''
             [(''shorturl'', Some url), (''format'', Some ''json'')] True of
        Inl ex \<Rightarrow> Inl ex
      | Inr r0 \<Rightarrow>
          (case check_status r0 of
             Inl ex \<Rightarrow> Inl ex
           | Inr r \<Rightarrow>
               (case response_json r of
                  Inl ex \<Rightarrow> Inl ex
                | Inr j \<Rightarrow>
                    (case py_contains j ''url'' of
                       Inl ex \<Rightarrow> Inl ex
                     | Inr True \<Rightarrow> py_getitem j ''url''
                     | Inr False \<Rightarrow>
                         (case py_getitem j ''errormessage'' of
                            Inl ex \<Rightarrow> Inl ex
                          | Inr m \<Rightarrow> Inl (ServiceError m r))))))"

text \<open>\<^verbatim>\<open>raise ServiceError(j['error']['message'], r)\<close>\<close>

definition googl_error :: "pyval \<Rightarrow> response \<Rightarrow> exn" where
  "googl_error j r =
     (case py_getitem j ''error'' of
        Inl ex \<Rightarrow> ex
      | Inr err \<Rightarrow>
          (case py_getitem err ''message'' of
             Inl ex \<Rightarrow> ex
           | Inr m \<Rightarrow> ServiceError m r))"

definition Googl_shorten :: "env \<Rightarrow> string \<Rightarrow> string option \<Rightarrow> string option \<Rightarrow> exn + pyval" where
  "Googl_shorten e url custom key =
     (case requests_post e ''https://www.googleapis.com/urlshortener/v1/url''
             [(''key'', key)] (JsonDumps (PDict [(''longUrl'', PStr url)]))
             [(''content-type'', ''application/json'')] of
        Inl ex \<Rightarrow> Inl ex
      | Inr r0 \<Rightarrow>
          (case check_status r0 of
             Inl ex \<Rightarrow> Inl ex
           | Inr r \<Rightarrow>
               (case response_json r of
                  Inl ex \<Rightarrow> Inl ex
                | Inr j \<Rightarrow>
                    (case py_contains j ''error'' of
                       Inl ex \<Rightarrow> Inl ex
                     | Inr False \<Rightarrow> py_getitem j ''id''
                     | Inr True \<Rightarrow> Inl (googl_error j r)))))"

definition Googl_expand :: "env \<Rightarrow> string \<Rightarrow> exn + pyval" where
  "Googl_expand e url =
     (case requests_get e ''https://www.googleapis.com/urlshortener/v1/url''
             [(''shortUrl'', Some url)] True of
        Inl ex \<Rightarrow> Inl ex
      | Inr r0 \<Rightarrow>
          (case check_status r0 of
             Inl ex \<Rightarrow> Inl ex
           | Inr r \<Rightarrow>
               (case response_json r of
                  Inl ex \<Rightarrow> Inl ex
                | Inr j \<Rightarrow>
                    (case py_contains j ''error'' of
                       Inl ex \<Rightarrow> Inl ex
                     | Inr False \<Rightarrow> py_getitem j ''longUrl''
                     | Inr True \<Rightarrow> Inl (googl_error j r)))))"

text \<open>
  \<^verbatim>\<open>
  if r.status_code == requests.codes.created:
      s = r.headers['location']
      if custom and custom not in s:
          raise ServiceError('That URL is already in use', r)
      return s
  raise ServiceError(r.text, r)
  \<close>
  \<^verbatim>\<open>custom\<close> is true when it is neither \<^verbatim>\<open>None\<close> nor the empty string.
\<close>

definition Gitio_shorten :: "env \<Rightarrow> string \<Rightarrow> string option \<Rightarrow> string option \<Rightarrow> exn + pyval" where
  "Gitio_shorten e url custom key =
     (case requests_post e ''http://git.io'' [] (Form [(''url'', Some url), (''code'', custom)]) [] of
        Inl ex \<Rightarrow> Inl ex
      | Inr r0 \<Rightarrow>
          (case check_status r0 of
             Inl ex \<Rightarrow> Inl ex
           | Inr r \<Rightarrow>
               if status_code r = codes_created then
                 (case headers r ''location'' of
                    None \<Rightarrow> Inl (KeyError ''location'')
                  | Some s \<Rightarrow>
                      (case custom of
                         None \<Rightarrow> Inr (PStr s)
                       | Some c \<Rightarrow>
                           if c \<noteq> [] \<and> \<not> str_contains s c
                           then Inl (ServiceError (PStr ''That URL is already in use'') r)
                           else Inr (PStr s)))
               else Inl (ServiceError (PStr (text_r r)) r)))"

fun shorten_m :: "shortener \<Rightarrow> env \<Rightarrow> string \<Rightarrow> string option \<Rightarrow> string option \<Rightarrow> exn + pyval" where
  "shorten_m Shortener = Shortener_shorten"
| "shorten_m Isgd = Isgd_shorten"
| "shorten_m Googl = Googl_shorten"
| "shorten_m Gitio = Gitio_shorten"

fun expand_m :: "shortener \<Rightarrow> env \<Rightarrow> string \<Rightarrow> exn + pyval" where
  "expand_m Shortener = Shortener_expand"
| "expand_m Isgd = Isgd_expand"
| "expand_m Googl = Googl_expand"
| "expand_m Gitio = Shortener_expand"

text \<open>
  \<^verbatim>\<open>
  def try_shorten(self, url, custom=None, key=None):
      try:
          return self.shorten(url, custom, key)
      except ServiceError:
          return url
  \<close>
\<close>

definition try_shorten_m ::
  "shortener \<Rightarrow> env \<Rightarrow> string \<Rightarrow> string option \<Rightarrow> string option \<Rightarrow> exn + pyval" where
  "try_shorten_m impl e url custom key =
     (case shorten_m impl e url custom key of
        Inl ex \<Rightarrow> if is_ServiceError ex then Inr (PStr url) else Inl ex
      | Inr v \<Rightarrow> Inr v)"

text \<open>
  The registry \<^verbatim>\<open>shorteners\<close> is a module dictionary that no operation changes: it is
  the first argument of the public functions. \<open>loaded_shorteners\<close> is its value once the
  three decorators \<^verbatim>\<open>@_shortener(name)\<close> of the module have run.
\<close>

definition shortener_decorate :: "string \<Rightarrow> shortener \<Rightarrow> shortener dict \<Rightarrow> shortener dict" where
  "shortener_decorate name impl shorteners = dict_setitem shorteners name impl"

definition loaded_shorteners :: "shortener dict" where
  "loaded_shorteners =
     shortener_decorate ''git.io'' Gitio
       (shortener_decorate ''goo.gl'' Googl
         (shortener_decorate ''is.gd'' Isgd []))"

definition shorten ::
  "shortener dict \<Rightarrow> env \<Rightarrow> string \<Rightarrow> string option \<Rightarrow> string option \<Rightarrow> string \<Rightarrow> exn + pyval" where
  "shorten shorteners e url custom key service =
     (case dict_getitem shorteners service of
        Inl ex \<Rightarrow> Inl ex
      | Inr impl \<Rightarrow> shorten_m impl e url custom key)"

definition try_shorten ::
  "shortener dict \<Rightarrow> env \<Rightarrow> string \<Rightarrow> string option \<Rightarrow> string option \<Rightarrow> string \<Rightarrow> exn + pyval" where
  "try_shorten shorteners e url custom key service =
     (case dict_getitem shorteners service of
        Inl ex \<Rightarrow> Inl ex
      | Inr impl \<Rightarrow> try_shorten_m impl e url custom key)"

text \<open>
  The scan of \<^verbatim>\<open>expand\<close> over the names of the registry, in the dictionary's order:
  \<^verbatim>\<open>
  impl = None
  for name in shorteners:
      if name in url:
          impl = shorteners[name]
          break
  \<close>
\<close>

fun expand_scan :: "shortener dict \<Rightarrow> string list \<Rightarrow> string \<Rightarrow> exn + shortener option" where
  "expand_scan shorteners [] url = Inr None"
| "expand_scan shorteners (name # names) url =
     (if str_contains url name then
        (case dict_getitem shorteners name of
           Inl ex \<Rightarrow> Inl ex
         | Inr impl \<Rightarrow> Inr (Some impl))
      else expand_scan shorteners names url)"

text \<open>\<^verbatim>\<open>if service:\<close> holds for a name that is neither \<^verbatim>\<open>None\<close> nor empty.\<close>

definition expand :: "shortener dict \<Rightarrow> env \<Rightarrow> string \<Rightarrow> string option \<Rightarrow> exn + pyval" where
  "expand shorteners e url service =
     (if service \<noteq> None \<and> service \<noteq> Some [] then
        (case dict_getitem shorteners (the service) of
           Inl ex \<Rightarrow> Inl ex
         | Inr impl \<Rightarrow> expand_m impl e url)
      else
        (case expand_scan shorteners (map fst shorteners) url of
           Inl ex \<Rightarrow> Inl ex
         | Inr None \<Rightarrow> expand_m Shortener e url
         | Inr (Some impl) \<Rightarrow> expand_m impl e url))"

section \<open>plugins/pagecheck.py\<close>

text \<open>
  \<^verbatim>\<open>
  try:
      r = requests.get(text)
      r.raise_for_status()
  except requests.exceptions.ConnectionError:
      return '{} seems to be down'.format(text)
  else:
      return '{} seems to be up'.format(text)
  \<close>
  The handler takes a \<open>ConnectionError\<close> only; any other exception of the two calls
  leaves the function.
\<close>

definition down :: "env \<Rightarrow> string \<Rightarrow> exn + string" where
  "down e text0 =
     (let text1 = (if \<not> str_contains text0 ''://'' then ''http://'' @ text0 else text0)
      in case urlparse e text1 of
           Inl ex \<Rightarrow> Inl ex
         | Inr parts \<Rightarrow>
             (let text2 = ''http://'' @ netloc parts
              in case (case requests_get e text2 [] True of
                         Inl ex \<Rightarrow> Inl ex
                       | Inr r \<Rightarrow> raise_for_status r) of
                   Inl ex \<Rightarrow>
                     if is_ConnectionError ex then Inr (text2 @ '' seems to be down'')
                     else Inl ex
                 | Inr u \<Rightarrow> Inr (text2 @ '' seems to be up'')))"

definition failed_to_get_status :: string where
  "failed_to_get_status = ''Failed to get status.''"

definition verdict_down :: "string \<Rightarrow> string" where
  "verdict_down url =
     ''It'' @ [CHR 0x27] @ ''s not just you. '' @ url @ '' looks '' @ [CHR 0x02, CHR 0x03]
       @ ''4down'' @ [CHR 0x02, CHR 0x0F] @ '' from here!''"

definition verdict_up :: "string \<Rightarrow> string" where
  "verdict_up url =
     ''It'' @ [CHR 0x27] @ ''s just you. '' @ url @ '' is '' @ [CHR 0x02, CHR 0x03]
       @ ''3up'' @ [CHR 0x02, CHR 0x0F] @ ''.''"

definition verdict_huh :: string where
  "verdict_huh = ''Huh? That doesn'' @ [CHR 0x27] @ ''t look like a site on the interweb.''"

text \<open>
  \<^verbatim>\<open>domain = auth or path\<close> takes the path when the authority is empty. A
  \<^verbatim>\<open>find\<close> that returns \<^verbatim>\<open>None\<close> makes \<^verbatim>\<open>.text\<close> raise \<open>AttributeError\<close>.
\<close>

definition isup :: "env \<Rightarrow> string \<Rightarrow> exn + string" where
  "isup e text0 =
     (let url = strip text0
      in case urlsplit e url of
           Inl ex \<Rightarrow> Inl ex
         | Inr parts \<Rightarrow>
             (let domain = (if netloc parts \<noteq> [] then netloc parts else path parts)
              in case (case requests_get e (''http://isup.me/'' @ domain) [] True of
                         Inl ex \<Rightarrow> Inl ex
                       | Inr r \<Rightarrow>
                           (case raise_for_status r of Inl ex \<Rightarrow> Inl ex | Inr u \<Rightarrow> Inr r)) of
                   Inl ex \<Rightarrow>
                     if is_ConnectionError ex then Inr failed_to_get_status else Inl ex
                 | Inr response \<Rightarrow>
                     if status_code response \<noteq> codes_ok then Inr failed_to_get_status
                     else
                       (case soup_find_text e (text_r response) ''div'' ''domain-main-content'' of
                          None \<Rightarrow> Inl AttributeError
                        | Some t \<Rightarrow>
                            (let content = strip t
                             in if str_contains content ''not just you'' then Inr (verdict_down url)
                                else if str_contains content ''is up'' then Inr (verdict_up url)
                                else Inr verdict_huh))))"

section \<open>Auxiliary definitions\<close>

text \<open>
  What the loop of \<^verbatim>\<open>paste\<close> returns, as a function of the backends in the order in
  which it calls them: the first result, or the first exception that is not a
  \<open>ServiceError\<close>, and the fixed string when every call raised a \<open>ServiceError\<close>.
\<close>

fun try_each :: "env \<Rightarrow> string \<Rightarrow> string \<Rightarrow> pastebin list \<Rightarrow> exn + pyval" where
  "try_each e data ext [] = Inr unable_to_paste"
| "try_each e data ext (impl # impls) =
     (case paste_m impl e data ext of
        Inr v \<Rightarrow> Inr v
      | Inl ex \<Rightarrow> if is_ServiceError ex then try_each e data ext impls else Inl ex)"

subsection \<open>Example environments\<close>

text \<open>
  Concrete collaborators for the examples. \<open>example_urlsplit\<close> splits the two shapes
  of address the examples use, \<^verbatim>\<open>http://host/path\<close> and a bare \<^verbatim>\<open>host\<close>, the way
  \<^verbatim>\<open>urllib.parse\<close> does; \<open>example_str\<close> is \<^verbatim>\<open>str\<close> on the values the examples format.
  In \<open>example_env outcome div_text\<close> every request has the outcome \<open>outcome\<close>, and the
  page's \<^verbatim>\<open>div\<close> has the text \<open>div_text\<close>.
\<close>

definition example_urlsplit :: "string \<Rightarrow> exn + url_parts" where
  "example_urlsplit u =
     (if startswith u ''http://'' then
        Inr \<lparr>scheme = ''http'',
             netloc = takeWhile (\<lambda>c. c \<noteq> CHR ''/'') (drop 7 u),
             path = dropWhile (\<lambda>c. c \<noteq> CHR ''/'') (drop 7 u),
             query = [], fragment = []\<rparr>
      else Inr \<lparr>scheme = [], netloc = [], path = u, query = [], fragment = []\<rparr>)"

fun example_str :: "pyval \<Rightarrow> string" where
  "example_str (PStr s) = s"
| "example_str PNone = ''None''"
| "example_str (PBool b) = (if b then ''True'' else ''False'')"
| "example_str v = []"

definition example_env :: "exn + response \<Rightarrow> string option \<Rightarrow> env" where
  "example_env outcome div_text =
     \<lparr>http = (\<lambda>req. outcome), urlparse = example_urlsplit, urlsplit = example_urlsplit,
      soup_find_text = (\<lambda>markup tag ident. div_text), str_of = example_str\<rparr>"

definition no_headers :: "string \<Rightarrow> string option" where
  "no_headers h = None"

definition location_header :: "string \<Rightarrow> string \<Rightarrow> string option" where
  "location_header l h = (if h = ''location'' then Some l else None)"

definition resp_503 :: response where
  "resp_503 = \<lparr>status_code = 503, reason = ''Service Unavailable'', headers = no_headers,
                text_r = [], json_body = None\<rparr>"

definition resp_404 :: response where
  "resp_404 = \<lparr>status_code = 404, reason = ''Not Found'', headers = no_headers,
                text_r = [], json_body = None\<rparr>"

definition resp_302 :: response where
  "resp_302 = \<lparr>status_code = 302, reason = ''Found'',
                headers = location_header ''http://example.com/long'',
                text_r = [], json_body = None\<rparr>"

definition resp_204 :: response where
  "resp_204 = \<lparr>status_code = 204, reason = ''No Content'', headers = no_headers,
                text_r = [], json_body = None\<rparr>"

definition resp_page :: response where
  "resp_page = \<lparr>status_code = 200, reason = ''OK'', headers = no_headers,
                 text_r = ''<html>...</html>'', json_body = None\<rparr>"

definition resp_hastebin_key :: response where
  "resp_hastebin_key = \<lparr>status_code = 200, reason = ''OK'', headers = no_headers,
                 text_r = [], json_body = Some (PDict [(''key'', PStr ''abc'')])\<rparr>"

definition resp_isgd_error :: response where
  "resp_isgd_error = \<lparr>status_code = 200, reason = ''OK'', headers = no_headers,
                 text_r = [],
                 json_body = Some (PDict [(''errorcode'', PInt 1),
                                         (''errormessage'', PStr ''Please enter a valid URL'')])\<rparr>"

definition resp_gitio :: "string \<Rightarrow> response" where
  "resp_gitio l = \<lparr>status_code = 201, reason = ''Created'', headers = location_header l,
                    text_r = [], json_body = None\<rparr>"

text \<open>Two further pastebins, as a plugin could register them.\<close>

definition good_bin :: pastebin where
  "good_bin = Pastebin_subclass (\<lambda>e data ext. Inr (PStr (''https://paste.example/1.'' @ ext)))"

definition unreachable_bin :: pastebin where
  "unreachable_bin = Pastebin_subclass (\<lambda>e data ext. Inl ConnectionError)"

definition failing_bin :: pastebin where
  "failing_bin = Pastebin_subclass (\<lambda>e data ext. Inl (ServiceError (PStr ''Bad Gateway'') resp_503))"

definition three_bins_state :: state where
  "three_bins_state =
     pastebin_decorate ''unreachable'' unreachable_bin
       (pastebin_decorate ''good'' good_bin loaded_state)"

definition two_bins_state :: state where
  "two_bins_state = pastebin_decorate ''good'' good_bin loaded_state"

definition two_failing_state :: state where
  "two_failing_state = pastebin_decorate ''failing'' failing_bin loaded_state"

definition resp_isgd_shorturl :: response where
  "resp_isgd_shorturl = \<lparr>status_code = 200, reason = ''OK'', headers = no_headers,
                 text_r = [],
                 json_body = Some (PDict [(''shorturl'', PStr ''http://is.gd/abc'')])\<rparr>"

text \<open>The text of the status page's \<^verbatim>\<open>div\<close>, in three examples.\<close>

definition page_down :: string where
  "page_down = '' It is not just you! http://example.com looks down from here. ''"

definition page_up :: string where
  "page_up = '' It is just you. http://example.com is up. ''"

definition page_other :: string where
  "page_other = '' Huh? ''"

section \<open>Properties\<close>

subsection \<open>Substrings\<close>

text \<open>\<open>str_contains s sub\<close> holds exactly when \<open>sub\<close> occurs in \<open>s\<close>.\<close>

lemma startswith_iff: "startswith s p \<longleftrightarrow> (\<exists>q. s = p @ q)"
  by (induction s p rule: startswith.induct) auto

lemma str_contains_iff: "str_contains s sub \<longleftrightarrow> (\<exists>p q. s = p @ sub @ q)"
proof (induction s)
  case Nil
  then show ?case by auto
next
  case (Cons c cs)
  show ?case
  proof
    assume "str_contains (c # cs) sub"
    then consider "startswith (c # cs) sub" | "str_contains cs sub" by auto
    then show "\<exists>p q. c # cs = p @ sub @ q"
    proof cases
      case 1
      then obtain q where "c # cs = sub @ q" by (auto simp: startswith_iff)
      then have "c # cs = [] @ sub @ q" by simp
      then show ?thesis by blast
    next
      case 2
      then obtain p q where "cs = p @ sub @ q" using Cons.IH by blast
      then have "c # cs = (c # p) @ sub @ q" by simp
      then show ?thesis by blast
    qed
  next
    assume "\<exists>p q. c # cs = p @ sub @ q"
    then obtain p q where pq: "c # cs = p @ sub @ q" by blast
    show "str_contains (c # cs) sub"
    proof (cases p)
      case Nil
      then have "startswith (c # cs) sub" using pq by (auto simp: startswith_iff)
      then show ?thesis by simp
    next
      case (Cons a p')
      then have "cs = p' @ sub @ q" using pq by simp
      then have "str_contains cs sub" using Cons.IH by blast
      then show ?thesis by simp
    qed
  qed
qed

lemma str_contains_append: "str_contains s sub \<Longrightarrow> str_contains (a @ s @ b) sub"
proof -
  assume "str_contains s sub"
  then obtain p q where "s = p @ sub @ q" by (auto simp: str_contains_iff)
  then have "a @ s @ b = (a @ p) @ sub @ (q @ b)" by simp
  then show ?thesis unfolding str_contains_iff by blast
qed

subsection \<open>The fallback scan of paste\<close>

text \<open>
  The loop calls the selected backend and then the backends of the copy from the last
  pair to the first.
\<close>

lemma paste_loop_try_each:
  "fst (paste_loop e data ext io bins st) =
     try_each e data ext (case io of None \<Rightarrow> [] | Some i \<Rightarrow> i # rev (map snd (heap st bins)))"
proof (induction e data ext io bins st rule: paste_loop.induct)
  case (1 e data ext bins st)
  show ?case by simp
next
  case (2 e data ext impl bins st)
  show ?case
  proof (cases "paste_m impl e data ext")
    case (Inr v)
    then show ?thesis by simp
  next
    case (Inl ex)
    show ?thesis
    proof (cases "is_ServiceError ex")
      case False
      with Inl show ?thesis by simp
    next
      case True
      let ?st1 = "logger_exception ''Paste failed'' ex st"
      show ?thesis
      proof (cases "heap st bins = []")
        case empty: True
        then have "ref_popitem bins ?st1 =
            (Inl (KeyError ''popitem(): dictionary is empty''), ?st1)"
          by (simp add: ref_popitem_def dict_popitem_def logger_exception_def)
        with Inl True empty show ?thesis by simp
      next
        case nonempty: False
        obtain k impl2 where l: "last (heap st bins) = (k, impl2)" by (cases "last (heap st bins)")
        let ?st2 = "?st1\<lparr>heap := (heap ?st1)(bins := butlast (heap st bins))\<rparr>"
        have pop: "ref_popitem bins ?st1 = (Inr (k, impl2), ?st2)"
          using nonempty l by (simp add: ref_popitem_def dict_popitem_def logger_exception_def)
        have "fst (paste_loop e data ext (Some impl2) bins ?st2) =
            try_each e data ext (impl2 # rev (map snd (butlast (heap st bins))))"
          using "2.IH"(2) [OF Inl True pop [symmetric] refl refl] by simp
        moreover have "rev (map snd (heap st bins)) =
            impl2 # rev (map snd (butlast (heap st bins)))"
          using nonempty l by (cases "heap st bins" rule: rev_cases) auto
        ultimately show ?thesis using Inl True pop by simp
      qed
    qed
  qed
qed

lemma paste_try_each:
  "fst (paste e data ext service st) =
     try_each e data ext
       (case map_of (heap st pastebins) service of
          None \<Rightarrow> []
        | Some i \<Rightarrow> i # rev (map snd (dict_delete (heap st pastebins) service)))"
  by (simp add: paste_def ref_copy_def ref_pop_def dict_pop_def paste_loop_try_each
           del: paste_loop.simps split: option.splits)

lemma set_dict_delete_subset: "set (dict_delete d k) \<subseteq> set d"
  by (induction d k rule: dict_delete.induct) auto

lemma set_dict_delete_distinct:
  "distinct (map fst d) \<Longrightarrow> set (dict_delete d k) = {(n, i). (n, i) \<in> set d \<and> n \<noteq> k}"
  by (induction d k rule: dict_delete.induct) force+

lemma try_each_all_fail:
  "\<forall>i \<in> set impls. \<exists>m r. paste_m i e data ext = Inl (ServiceError m r) \<Longrightarrow>
   try_each e data ext impls = Inr unable_to_paste"
  by (induction impls) auto

lemma try_each_some_success:
  assumes "\<forall>i \<in> set impls. (\<exists>v. paste_m i e data ext = Inr v) \<or>
             (\<exists>m r. paste_m i e data ext = Inl (ServiceError m r))"
    and "\<exists>i \<in> set impls. \<exists>v. paste_m i e data ext = Inr v"
  shows "\<exists>i \<in> set impls. \<exists>v. paste_m i e data ext = Inr v \<and> try_each e data ext impls = Inr v"
  using assms
proof (induction impls)
  case Nil
  then show ?case by simp
next
  case (Cons i impls)
  show ?case
  proof (cases "paste_m i e data ext")
    case (Inr v)
    then show ?thesis by simp
  next
    case (Inl ex)
    then obtain m r where ex: "ex = ServiceError m r" using Cons.prems(1) by auto
    have "\<exists>j \<in> set impls. \<exists>v. paste_m j e data ext = Inr v"
      using Cons.prems(2) Inl by auto
    moreover have "\<forall>j \<in> set impls. (\<exists>v. paste_m j e data ext = Inr v) \<or>
             (\<exists>m r. paste_m j e data ext = Inl (ServiceError m r))"
      using Cons.prems(1) by simp
    ultimately obtain j v where "j \<in> set impls" "paste_m j e data ext = Inr v"
      "try_each e data ext impls = Inr v"
      using Cons.IH by blast
    then show ?thesis using Inl ex by auto
  qed
qed

lemma paste_loop_frame:
  "r \<noteq> bins \<Longrightarrow> heap (snd (paste_loop e data ext io bins st)) r = heap st r"
proof (induction e data ext io bins st rule: paste_loop.induct)
  case (1 e data ext bins st)
  show ?case by simp
next
  case (2 e data ext impl bins st)
  show ?case
  proof (cases "paste_m impl e data ext")
    case (Inr v)
    then show ?thesis by simp
  next
    case (Inl ex)
    show ?thesis
    proof (cases "is_ServiceError ex")
      case False
      with Inl show ?thesis by simp
    next
      case True
      let ?st1 = "logger_exception ''Paste failed'' ex st"
      obtain x st2 where pop: "ref_popitem bins ?st1 = (x, st2)"
        by (cases "ref_popitem bins ?st1")
      have st2: "heap st2 r = heap st r"
        using pop "2.prems"
        by (auto simp: ref_popitem_def logger_exception_def split: sum.splits prod.splits)
      show ?thesis
      proof (cases x)
        case (Inl ex2)
        show ?thesis
        proof (cases "is_LookupError ex2")
          case lookup: True
          then show ?thesis
            using \<open>paste_m impl e data ext = Inl ex\<close> True pop Inl st2 by simp
        next
          case other: False
          then show ?thesis
            using \<open>paste_m impl e data ext = Inl ex\<close> True pop Inl st2 by simp
        qed
      next
        case (Inr kv)
        obtain k impl2 where kv: "kv = (k, impl2)" by (cases kv)
        have "heap (snd (paste_loop e data ext (Some impl2) bins st2)) r = heap st2 r"
          using "2.IH"(2) [OF \<open>paste_m impl e data ext = Inl ex\<close> True pop [symmetric] _ refl "2.prems"]
            Inr kv by simp
        then show ?thesis
          using \<open>paste_m impl e data ext = Inl ex\<close> True pop Inr kv st2 by simp
      qed
    qed
  qed
qed

subsection \<open>The example registries\<close>

lemma heap_loaded_state: "heap loaded_state pastebins = [(''hastebin'', Hastebin)]"
  by (simp add: loaded_state_def pastebin_decorate_def init_state_def)

lemma heap_two_failing_state:
  "heap two_failing_state pastebins = [(''hastebin'', Hastebin), (''failing'', failing_bin)]"
  by (simp add: two_failing_state_def pastebin_decorate_def heap_loaded_state)

lemma heap_two_bins_state:
  "heap two_bins_state pastebins = [(''hastebin'', Hastebin), (''good'', good_bin)]"
  by (simp add: two_bins_state_def pastebin_decorate_def heap_loaded_state)

lemma heap_three_bins_state:
  "heap three_bins_state pastebins =
     [(''hastebin'', Hastebin), (''good'', good_bin), (''unreachable'', unreachable_bin)]"
  by (simp add: three_bins_state_def pastebin_decorate_def heap_loaded_state)

lemma Hastebin_503:
  "Hastebin_paste (example_env (Inr resp_503) None) data ext =
     Inl (ServiceError (PStr ''Service Unavailable'') resp_503)"
  by (simp add: Hastebin_paste_def requests_post_def example_env_def check_status_def
        raise_for_status_def resp_503_def)

lemma Hastebin_key:
  "Hastebin_paste (example_env (Inr resp_hastebin_key) None) data ''txt'' =
     Inr (PStr ''https://hastebin.com/abc.txt'')"
  by (simp add: Hastebin_paste_def requests_post_def example_env_def check_status_def
        raise_for_status_def resp_hastebin_key_def response_json_def codes_ok_def
        dict_getitem_def HASTEBIN_SERVER_def)

lemma loaded_shorteners_eq:
  "loaded_shorteners = [(''is.gd'', Isgd), (''goo.gl'', Googl), (''git.io'', Gitio)]"
  by (simp add: loaded_shorteners_def shortener_decorate_def)

subsection \<open>Claims about paste\<close>

text \<open>
  C1. For every data string, extension and requested service (the default \<open>DEFAULT_PASTEBIN\<close>
  among them): if the \<^verbatim>\<open>paste\<close> of every registered pastebin raises \<open>ServiceError\<close>, then
  \<^verbatim>\<open>paste\<close> returns the fixed string \<^verbatim>\<open>"Unable to paste data"\<close>; it returns a value, so no
  exception reaches the caller.
\<close>

theorem paste_all_backends_fail:
  assumes "\<forall>(name, impl) \<in> set (heap st pastebins).
             \<exists>m r. paste_m impl e data ext = Inl (ServiceError m r)"
  shows "fst (paste e data ext service st) = Inr unable_to_paste"
proof (cases "map_of (heap st pastebins) service")
  case None
  then show ?thesis by (simp add: paste_try_each)
next
  case (Some i)
  then have "(service, i) \<in> set (heap st pastebins)" by (rule map_of_SomeD)
  moreover have "set (dict_delete (heap st pastebins) service) \<subseteq> set (heap st pastebins)"
    by (rule set_dict_delete_subset)
  ultimately have "\<forall>j \<in> set (i # rev (map snd (dict_delete (heap st pastebins) service))).
      \<exists>m r. paste_m j e data ext = Inl (ServiceError m r)"
    using assms by fastforce
  then have "try_each e data ext (i # rev (map snd (dict_delete (heap st pastebins) service)))
      = Inr unable_to_paste"
    by (rule try_each_all_fail)
  then show ?thesis using Some by (simp add: paste_try_each)
qed

text \<open>
  An instance: \<^verbatim>\<open>hastebin\<close> answers 503 and a second registered pastebin raises
  \<open>ServiceError\<close> as well.
\<close>

theorem paste_all_backends_fail_witness:
  "heap two_failing_state pastebins = [(''hastebin'', Hastebin), (''failing'', failing_bin)] \<and>
   paste_m Hastebin (example_env (Inr resp_503) None) ''hello'' ''txt''
     = Inl (ServiceError (PStr ''Service Unavailable'') resp_503) \<and>
   paste_m failing_bin (example_env (Inr resp_503) None) ''hello'' ''txt''
     = Inl (ServiceError (PStr ''Bad Gateway'') resp_503) \<and>
   fst (paste (example_env (Inr resp_503) None) ''hello'' ''txt'' DEFAULT_PASTEBIN
          two_failing_state) = Inr (PStr ''Unable to paste data'')"
proof -
  have h: "\<forall>(name, impl) \<in> set (heap two_failing_state pastebins).
      \<exists>m r. paste_m impl (example_env (Inr resp_503) None) ''hello'' ''txt''
              = Inl (ServiceError m r)"
    by (simp add: heap_two_failing_state Hastebin_503 failing_bin_def)
  show ?thesis
    using paste_all_backends_fail [OF h, of DEFAULT_PASTEBIN]
    by (simp add: unable_to_paste_def heap_two_failing_state Hastebin_503 failing_bin_def)
qed

text \<open>
  C2, as amended. Let the registry have distinct names, let the requested pastebin be
  registered and raise \<open>ServiceError\<close>, let the \<^verbatim>\<open>paste\<close> of every other registered pastebin
  either return a value or raise \<open>ServiceError\<close>, and let at least one of them return a
  value. Then \<^verbatim>\<open>paste\<close> returns the value of one of these other pastebins whose \<^verbatim>\<open>paste\<close>
  succeeds.
\<close>

theorem paste_fallback:
  assumes "distinct (map fst (heap st pastebins))"
    and "map_of (heap st pastebins) service = Some x"
    and "paste_m x e data ext = Inl (ServiceError m r)"
    and "\<forall>(name, impl) \<in> set (heap st pastebins). name \<noteq> service \<longrightarrow>
           (\<exists>v. paste_m impl e data ext = Inr v) \<or>
           (\<exists>m' r'. paste_m impl e data ext = Inl (ServiceError m' r'))"
    and "\<exists>(name, impl) \<in> set (heap st pastebins). name \<noteq> service \<and>
           (\<exists>v. paste_m impl e data ext = Inr v)"
  shows "\<exists>(name, impl) \<in> set (heap st pastebins). name \<noteq> service \<and>
           (\<exists>v. paste_m impl e data ext = Inr v \<and> fst (paste e data ext service st) = Inr v)"
proof -
  let ?rest = "rev (map snd (dict_delete (heap st pastebins) service))"
  have rest: "set ?rest = {i. \<exists>n. (n, i) \<in> set (heap st pastebins) \<and> n \<noteq> service}"
    using set_dict_delete_distinct [OF assms(1), of service] by force
  have "\<forall>i \<in> set ?rest. (\<exists>v. paste_m i e data ext = Inr v) \<or>
             (\<exists>m r. paste_m i e data ext = Inl (ServiceError m r))"
    using assms(4) unfolding rest by blast
  moreover have "\<exists>i \<in> set ?rest. \<exists>v. paste_m i e data ext = Inr v"
    using assms(5) unfolding rest by blast
  ultimately obtain i v where i: "i \<in> set ?rest" "paste_m i e data ext = Inr v"
      "try_each e data ext ?rest = Inr v"
    using try_each_some_success by blast
  have "fst (paste e data ext service st) = Inr v"
    using assms(2,3) i(3) by (simp add: paste_try_each)
  moreover obtain n where "(n, i) \<in> set (heap st pastebins)" "n \<noteq> service"
    using i(1) unfolding rest by blast
  ultimately show ?thesis using i(2) by blast
qed

text \<open>
  C2 as stated fails: \<^verbatim>\<open>hastebin\<close> is requested and raises \<open>ServiceError\<close>, the registered
  pastebin \<^verbatim>\<open>good\<close> succeeds, and the pastebin registered last cannot connect. The scan
  calls the last one first, and its \<open>ConnectionError\<close> leaves \<^verbatim>\<open>paste\<close>.
\<close>

theorem paste_fallback_counterexample:
  "map_of (heap three_bins_state pastebins) ''hastebin'' = Some Hastebin \<and>
   paste_m Hastebin (example_env (Inr resp_503) None) ''hello'' ''txt''
     = Inl (ServiceError (PStr ''Service Unavailable'') resp_503) \<and>
   map_of (heap three_bins_state pastebins) ''good'' = Some good_bin \<and>
   paste_m good_bin (example_env (Inr resp_503) None) ''hello'' ''txt''
     = Inr (PStr ''https://paste.example/1.txt'') \<and>
   fst (paste (example_env (Inr resp_503) None) ''hello'' ''txt'' ''hastebin'' three_bins_state)
     = Inl ConnectionError"
  by (simp add: heap_three_bins_state Hastebin_503 good_bin_def unreachable_bin_def
        paste_def ref_copy_def ref_pop_def dict_pop_def ref_popitem_def dict_popitem_def
        logger_exception_def)

text \<open>An instance of the amended statement: \<^verbatim>\<open>hastebin\<close> answers 503 and \<^verbatim>\<open>good\<close> succeeds.\<close>

theorem paste_fallback_witness:
  "distinct (map fst (heap two_bins_state pastebins)) \<and>
   map_of (heap two_bins_state pastebins) ''hastebin'' = Some Hastebin \<and>
   paste_m Hastebin (example_env (Inr resp_503) None) ''hello'' ''txt''
     = Inl (ServiceError (PStr ''Service Unavailable'') resp_503) \<and>
   fst (paste (example_env (Inr resp_503) None) ''hello'' ''txt'' ''hastebin'' two_bins_state)
     = Inr (PStr ''https://paste.example/1.txt'')"
proof -
  let ?e = "example_env (Inr resp_503) None"
  have d: "distinct (map fst (heap two_bins_state pastebins))"
    by (simp add: heap_two_bins_state)
  have x: "map_of (heap two_bins_state pastebins) ''hastebin'' = Some Hastebin"
    by (simp add: heap_two_bins_state)
  have f: "paste_m Hastebin ?e ''hello'' ''txt''
      = Inl (ServiceError (PStr ''Service Unavailable'') resp_503)"
    by (simp add: Hastebin_503)
  have g: "paste_m good_bin ?e ''hello'' ''txt'' = Inr (PStr ''https://paste.example/1.txt'')"
    by (simp add: good_bin_def)
  have a: "\<forall>(name, impl) \<in> set (heap two_bins_state pastebins). name \<noteq> ''hastebin'' \<longrightarrow>
           (\<exists>v. paste_m impl ?e ''hello'' ''txt'' = Inr v) \<or>
           (\<exists>m' r'. paste_m impl ?e ''hello'' ''txt'' = Inl (ServiceError m' r'))"
    using g by (simp add: heap_two_bins_state)
  have s: "\<exists>(name, impl) \<in> set (heap two_bins_state pastebins). name \<noteq> ''hastebin'' \<and>
           (\<exists>v. paste_m impl ?e ''hello'' ''txt'' = Inr v)"
    using g by (simp add: heap_two_bins_state)
  have "fst (paste ?e ''hello'' ''txt'' ''hastebin'' two_bins_state)
      = Inr (PStr ''https://paste.example/1.txt'')"
    using paste_fallback [OF d x f a s] g f by (auto simp: heap_two_bins_state)
  then show ?thesis using d x f by simp
qed

text \<open>
  C9, as amended. For every data string, extension and service name that is not in the
  pastebin registry, \<^verbatim>\<open>paste\<close> raises nothing and returns the fixed string
  \<^verbatim>\<open>"Unable to paste data"\<close> at once: it calls no backend (the environment and the registered
  backends play no part in the result) and logs no failure.
\<close>

theorem paste_unknown_service:
  assumes "map_of (heap st pastebins) service = None"
  shows "fst (paste e data ext service st) = Inr unable_to_paste \<and>
         logged (snd (paste e data ext service st)) = logged st"
  using assms
  by (simp add: paste_def ref_copy_def ref_pop_def dict_pop_def split: prod.splits)

text \<open>
  C9 as stated fails: with \<^verbatim>\<open>hastebin\<close> registered and answering with a key, a call for
  the unregistered name \<^verbatim>\<open>nope\<close> does not try \<^verbatim>\<open>hastebin\<close>, whose \<^verbatim>\<open>paste\<close> would succeed,
  and returns the fixed string.
\<close>

theorem paste_unknown_service_counterexample:
  "map_of (heap loaded_state pastebins) ''nope'' = None \<and>
   heap loaded_state pastebins = [(''hastebin'', Hastebin)] \<and>
   paste_m Hastebin (example_env (Inr resp_hastebin_key) None) ''hello'' ''txt''
     = Inr (PStr ''https://hastebin.com/abc.txt'') \<and>
   paste (example_env (Inr resp_hastebin_key) None) ''hello'' ''txt'' ''nope'' loaded_state
     = (Inr (PStr ''Unable to paste data''),
        loaded_state\<lparr>heap := (heap loaded_state)(1 := [(''hastebin'', Hastebin)]), next_ref := 2\<rparr>)"
  by (simp add: heap_loaded_state Hastebin_key paste_def ref_copy_def ref_pop_def dict_pop_def
        unable_to_paste_def)
     (simp add: loaded_state_def pastebin_decorate_def init_state_def pastebins_def)

text \<open>An instance of the amended statement, on the same input.\<close>

theorem paste_unknown_service_witness:
  "map_of (heap loaded_state pastebins) ''nope'' = None \<and>
   fst (paste (example_env (Inr resp_hastebin_key) None) ''hello'' ''txt'' ''nope'' loaded_state)
     = Inr (PStr ''Unable to paste data'') \<and>
   logged (snd (paste (example_env (Inr resp_hastebin_key) None) ''hello'' ''txt'' ''nope''
                  loaded_state)) = []"
proof -
  have h: "map_of (heap loaded_state pastebins) ''nope'' = None"
    by (simp add: heap_loaded_state)
  show ?thesis
    using h paste_unknown_service [OF h, of "example_env (Inr resp_hastebin_key) None"
        "''hello''" "''txt''"]
    by (simp add: unable_to_paste_def loaded_state_def pastebin_decorate_def init_state_def)
qed

text \<open>
  C10. A call of \<^verbatim>\<open>paste\<close> leaves the registry as it was: the dictionary that the global
  \<^verbatim>\<open>pastebins\<close> refers to holds the same names, bound to the same instances in the same
  order, after the call as before it, whatever the call returns or raises. The pairs are
  popped from the copy, which is a different object of the store.
\<close>

theorem paste_registry_unchanged:
  assumes "pastebins < next_ref st"
  shows "heap (snd (paste e data ext service st)) pastebins = heap st pastebins"
  using assms
  by (simp add: paste_def ref_copy_def ref_pop_def paste_loop_frame
           del: paste_loop.simps split: prod.splits)

text \<open>
  An instance in which the scan pops every pair of the copy and the call ends with the
  fixed string: the copy is empty afterwards, the registry is as before.
\<close>

theorem paste_registry_unchanged_witness:
  "pastebins < next_ref two_failing_state \<and>
   fst (paste (example_env (Inr resp_503) None) ''hello'' ''txt'' ''hastebin'' two_failing_state)
     = Inr (PStr ''Unable to paste data'') \<and>
   heap (snd (paste (example_env (Inr resp_503) None) ''hello'' ''txt'' ''hastebin''
                two_failing_state)) pastebins
     = [(''hastebin'', Hastebin), (''failing'', failing_bin)] \<and>
   heap (snd (paste (example_env (Inr resp_503) None) ''hello'' ''txt'' ''hastebin''
                two_failing_state)) (next_ref two_failing_state) = []"
proof -
  have h: "pastebins < next_ref two_failing_state"
    by (simp add: two_failing_state_def pastebin_decorate_def loaded_state_def init_state_def)
  have "fst (paste (example_env (Inr resp_503) None) ''hello'' ''txt'' ''hastebin''
      two_failing_state) = Inr (PStr ''Unable to paste data'')"
    by (simp add: heap_two_failing_state Hastebin_503 failing_bin_def unable_to_paste_def
        paste_def ref_copy_def ref_pop_def dict_pop_def ref_popitem_def dict_popitem_def
        logger_exception_def)
  moreover have "heap (snd (paste (example_env (Inr resp_503) None) ''hello'' ''txt''
      ''hastebin'' two_failing_state)) (next_ref two_failing_state) = []"
    by (simp add: heap_two_failing_state Hastebin_503 failing_bin_def unable_to_paste_def
        paste_def ref_copy_def ref_pop_def dict_pop_def ref_popitem_def dict_popitem_def
        logger_exception_def)
  ultimately show ?thesis
    using h paste_registry_unchanged [OF h, of "example_env (Inr resp_503) None"
        "''hello''" "''txt''" "''hastebin''"]
    by (simp add: heap_two_failing_state)
qed

subsection \<open>Claims about the shorteners\<close>

text \<open>
  C3. For every address, custom code, key and registered service name, \<^verbatim>\<open>try_shorten\<close>
  never raises \<open>ServiceError\<close>: when the \<^verbatim>\<open>shorten\<close> of the selected backend raises
  \<open>ServiceError\<close> it returns the address it was given, and when \<^verbatim>\<open>shorten\<close> returns a value
  it returns that value.
\<close>

theorem try_shorten_no_ServiceError:
  assumes "dict_getitem shorteners service = Inr impl"
  shows "(\<forall>m r. try_shorten shorteners e url custom key service \<noteq> Inl (ServiceError m r)) \<and>
         (\<forall>m r. shorten_m impl e url custom key = Inl (ServiceError m r) \<longrightarrow>
                  try_shorten shorteners e url custom key service = Inr (PStr url)) \<and>
         (\<forall>v. shorten_m impl e url custom key = Inr v \<longrightarrow>
                  try_shorten shorteners e url custom key service = Inr v)"
proof -
  have ts: "try_shorten shorteners e url custom key service = try_shorten_m impl e url custom key"
    using assms by (simp add: try_shorten_def)
  show ?thesis
  proof (cases "shorten_m impl e url custom key")
    case (Inr v)
    then show ?thesis by (simp add: ts try_shorten_m_def)
  next
    case (Inl ex)
    then show ?thesis by (cases ex) (simp_all add: ts try_shorten_m_def)
  qed
qed

text \<open>
  C3 at the default shortener: is.gd answers with an error message in the first example
  and with a short address in the second.
\<close>

theorem try_shorten_no_ServiceError_witness:
  "dict_getitem loaded_shorteners DEFAULT_SHORTENER = Inr Isgd \<and>
   shorten_m Isgd (example_env (Inr resp_isgd_error) None) ''htp:/bad'' None None
     = Inl (ServiceError (PStr ''Please enter a valid URL'') resp_isgd_error) \<and>
   try_shorten loaded_shorteners (example_env (Inr resp_isgd_error) None) ''htp:/bad'' None None
     DEFAULT_SHORTENER = Inr (PStr ''htp:/bad'') \<and>
   shorten_m Isgd (example_env (Inr resp_isgd_shorturl) None) ''http://example.com'' None None
     = Inr (PStr ''http://is.gd/abc'') \<and>
   try_shorten loaded_shorteners (example_env (Inr resp_isgd_shorturl) None)
     ''http://example.com'' None None DEFAULT_SHORTENER = Inr (PStr ''http://is.gd/abc'')"
proof -
  have h: "dict_getitem loaded_shorteners DEFAULT_SHORTENER = Inr Isgd"
    by (simp add: loaded_shorteners_eq DEFAULT_SHORTENER_def dict_getitem_def)
  have f: "shorten_m Isgd (example_env (Inr resp_isgd_error) None) ''htp:/bad'' None None
     = Inl (ServiceError (PStr ''Please enter a valid URL'') resp_isgd_error)"
    by (simp add: Isgd_shorten_def requests_get_def example_env_def check_status_def
        raise_for_status_def response_json_def dict_getitem_def resp_isgd_error_def)
  have g: "shorten_m Isgd (example_env (Inr resp_isgd_shorturl) None) ''http://example.com''
      None None = Inr (PStr ''http://is.gd/abc'')"
    by (simp add: Isgd_shorten_def requests_get_def example_env_def check_status_def
        raise_for_status_def response_json_def dict_getitem_def resp_isgd_shorturl_def)
  show ?thesis
    using h f g
      try_shorten_no_ServiceError [OF h, of "example_env (Inr resp_isgd_error) None"
        "''htp:/bad''" None None]
      try_shorten_no_ServiceError [OF h, of "example_env (Inr resp_isgd_shorturl) None"
        "''http://example.com''" None None]
    by simp
qed

text \<open>
  The scan of \<^verbatim>\<open>expand\<close>, started behind names that do not occur in the address, ends at
  the first pair whose name occurs in it.
\<close>

lemma expand_scan_find:
  "\<forall>(n, i) \<in> set pre. \<not> str_contains url n \<Longrightarrow>
   expand_scan (pre @ d) (map fst d) url =
     Inr (map_option snd (find (\<lambda>(n, i). str_contains url n) d))"
proof (induction d arbitrary: pre)
  case Nil
  show ?case by simp
next
  case (Cons p d)
  obtain n i where p: "p = (n, i)" by (cases p)
  show ?case
  proof (cases "str_contains url n")
    case True
    then have "n \<notin> fst ` set pre" using Cons.prems by force
    then have "map_of pre n = None" by (simp add: map_of_eq_None_iff)
    then have "dict_getitem (pre @ p # d) n = Inr i"
      by (simp add: dict_getitem_def p map_add_def)
    then show ?thesis using True p by simp
  next
    case False
    then have "\<forall>(n, i) \<in> set (pre @ [p]). \<not> str_contains url n"
      using Cons.prems p by simp
    then have "expand_scan ((pre @ [p]) @ d) (map fst d) url =
        Inr (map_option snd (find (\<lambda>(n, i). str_contains url n) d))"
      by (rule Cons.IH)
    then show ?thesis using False p by simp
  qed
qed

text \<open>
  C4. For every address, \<^verbatim>\<open>expand(url)\<close> without a service calls the \<^verbatim>\<open>expand\<close> of the first
  registered shortener, in the order of registration, whose name occurs in the address,
  and the \<^verbatim>\<open>expand\<close> of the generic \<open>Shortener\<close> (the probe that does not follow the
  redirect) when no registered name occurs in it.
\<close>

theorem expand_dispatch:
  "expand shorteners e url None =
     expand_m (case find (\<lambda>(name, impl). str_contains url name) shorteners of
                 None \<Rightarrow> Shortener
               | Some (name, impl) \<Rightarrow> impl) e url"
proof -
  have "expand_scan ([] @ shorteners) (map fst shorteners) url =
      Inr (map_option snd (find (\<lambda>(n, i). str_contains url n) shorteners))"
    by (rule expand_scan_find) simp
  then show ?thesis
    by (simp add: expand_def split: option.splits)
qed

text \<open>C4 at three addresses: two name a registered shortener, the third names none.\<close>

theorem expand_dispatch_witness:
  "expand loaded_shorteners (example_env (Inr resp_302) None) ''http://is.gd/abc'' None
     = expand_m Isgd (example_env (Inr resp_302) None) ''http://is.gd/abc'' \<and>
   expand loaded_shorteners (example_env (Inr resp_302) None) ''http://git.io/abc'' None
     = expand_m Gitio (example_env (Inr resp_302) None) ''http://git.io/abc'' \<and>
   expand loaded_shorteners (example_env (Inr resp_302) None) ''http://sho.rt/abc'' None
     = expand_m Shortener (example_env (Inr resp_302) None) ''http://sho.rt/abc'' \<and>
   expand loaded_shorteners (example_env (Inr resp_302) None) ''http://sho.rt/abc'' None
     = Inr (PStr ''http://example.com/long'')"
  using expand_dispatch [of loaded_shorteners "example_env (Inr resp_302) None" "''http://is.gd/abc''"]
    expand_dispatch [of loaded_shorteners "example_env (Inr resp_302) None" "''http://git.io/abc''"]
    expand_dispatch [of loaded_shorteners "example_env (Inr resp_302) None" "''http://sho.rt/abc''"]
  by (simp add: loaded_shorteners_eq Shortener_expand_def requests_get_def example_env_def
        check_status_def raise_for_status_def resp_302_def location_header_def)

text \<open>
  C5. The git.io shortener, for every address and non-empty custom code: when the response
  has status 201 and its \<^verbatim>\<open>location\<close> header does not contain the code, \<^verbatim>\<open>shorten\<close> raises
  \<open>ServiceError\<close>, although the request itself succeeded; when the header contains the code,
  \<^verbatim>\<open>shorten\<close> returns the header's value.
\<close>

theorem Gitio_shorten_custom:
  assumes "requests_post e ''http://git.io'' []
             (Form [(''url'', Some url), (''code'', Some c)]) [] = Inr r"
    and "status_code r = 201"
    and "headers r ''location'' = Some s"
    and "c \<noteq> []"
  shows "shorten_m Gitio e url (Some c) key =
           (if str_contains s c then Inr (PStr s)
            else Inl (ServiceError (PStr ''That URL is already in use'') r))"
  using assms
  by (simp add: Gitio_shorten_def check_status_def raise_for_status_def codes_created_def)

text \<open>C5 with the code \<^verbatim>\<open>mycode\<close>: the first answer points elsewhere, the second at the code.\<close>

theorem Gitio_shorten_custom_witness:
  "shorten_m Gitio (example_env (Inr (resp_gitio ''https://git.io/abcd'')) None)
     ''https://github.com/x'' (Some ''mycode'') None
     = Inl (ServiceError (PStr ''That URL is already in use'') (resp_gitio ''https://git.io/abcd'')) \<and>
   shorten_m Gitio (example_env (Inr (resp_gitio ''https://git.io/mycode'')) None)
     ''https://github.com/x'' (Some ''mycode'') None
     = Inr (PStr ''https://git.io/mycode'')"
proof -
  have a: "shorten_m Gitio (example_env (Inr (resp_gitio ''https://git.io/abcd'')) None)
     ''https://github.com/x'' (Some ''mycode'') None
     = Inl (ServiceError (PStr ''That URL is already in use'') (resp_gitio ''https://git.io/abcd''))"
    using Gitio_shorten_custom [of "example_env (Inr (resp_gitio ''https://git.io/abcd'')) None"
        "''https://github.com/x''" "''mycode''" "resp_gitio ''https://git.io/abcd''"
        "''https://git.io/abcd''" None]
    by (simp add: requests_post_def example_env_def resp_gitio_def location_header_def)
  have b: "shorten_m Gitio (example_env (Inr (resp_gitio ''https://git.io/mycode'')) None)
     ''https://github.com/x'' (Some ''mycode'') None
     = Inr (PStr ''https://git.io/mycode'')"
    using Gitio_shorten_custom [of "example_env (Inr (resp_gitio ''https://git.io/mycode'')) None"
        "''https://github.com/x''" "''mycode''" "resp_gitio ''https://git.io/mycode''"
        "''https://git.io/mycode''" None]
    by (simp add: requests_post_def example_env_def resp_gitio_def location_header_def)
  show ?thesis using a b by simp
qed

subsection \<open>Claims about the page checks\<close>

text \<open>
  C6, as amended. For every input whose address parses: when the request fails with a
  \<open>ConnectionError\<close>, \<^verbatim>\<open>down\<close> returns a string that contains \<^verbatim>\<open>down\<close>; when the request is
  answered with a status outside 400 to 599, \<^verbatim>\<open>down\<close> returns a string that contains
  \<^verbatim>\<open>up\<close>.
\<close>

theorem down_verdict:
  assumes "urlparse e (if str_contains text0 ''://'' then text0 else ''http://'' @ text0)
             = Inr parts"
  shows "(requests_get e (''http://'' @ netloc parts) [] True = Inl ConnectionError \<longrightarrow>
            down e text0 = Inr (''http://'' @ netloc parts @ '' seems to be down'') \<and>
            str_contains (''http://'' @ netloc parts @ '' seems to be down'') ''down'') \<and>
         (\<forall>r. requests_get e (''http://'' @ netloc parts) [] True = Inr r \<and>
               \<not> (400 \<le> status_code r \<and> status_code r < 600) \<longrightarrow>
            down e text0 = Inr (''http://'' @ netloc parts @ '' seems to be up'') \<and>
            str_contains (''http://'' @ netloc parts @ '' seems to be up'') ''up'')"
proof -
  have d: "str_contains (''http://'' @ netloc parts @ '' seems to be down'') ''down''"
    unfolding str_contains_iff
    by (rule exI [of _ "''http://'' @ netloc parts @ '' seems to be ''"], rule exI [of _ "[]"]) simp
  have u: "str_contains (''http://'' @ netloc parts @ '' seems to be up'') ''up''"
    unfolding str_contains_iff
    by (rule exI [of _ "''http://'' @ netloc parts @ '' seems to be ''"], rule exI [of _ "[]"]) simp
  show ?thesis
    using assms d u
    by (auto simp: down_def raise_for_status_def Let_def)
qed

text \<open>
  C6 as stated fails: the request is answered, with status 404, and \<^verbatim>\<open>down\<close> returns no
  string: the \<open>HTTPError\<close> of \<^verbatim>\<open>raise_for_status\<close> is not a \<open>ConnectionError\<close> and reaches
  the caller.
\<close>

theorem down_error_status_counterexample:
  "requests_get (example_env (Inr resp_404) None) ''http://example.com'' [] True = Inr resp_404 \<and>
   down (example_env (Inr resp_404) None) ''example.com'' = Inl (HTTPError resp_404)"
  by (simp add: down_def requests_get_def example_env_def example_urlsplit_def
        raise_for_status_def resp_404_def)

text \<open>C6, as amended: no connection in the first example, the answer 204 in the second.\<close>

theorem down_verdict_witness:
  "down (example_env (Inl ConnectionError) None) ''example.com/index.html''
     = Inr ''http://example.com seems to be down'' \<and>
   down (example_env (Inr resp_204) None) ''example.com/index.html''
     = Inr ''http://example.com seems to be up''"
proof -
  have p: "urlparse (example_env out None)
      (if str_contains ''example.com/index.html'' ''://'' then ''example.com/index.html''
       else ''http://'' @ ''example.com/index.html'')
      = Inr \<lparr>scheme = ''http'', netloc = ''example.com'', path = ''/index.html'',
              query = [], fragment = []\<rparr>" for out
    by (simp add: example_env_def example_urlsplit_def)
  show ?thesis
    using down_verdict [OF p [of "Inl ConnectionError"]]
      down_verdict [OF p [of "Inr resp_204"]]
    by (simp add: requests_get_def example_env_def resp_204_def)
qed

text \<open>
  C7. When the request to the status page is answered with a status that is not 2xx, or
  fails to connect, \<^verbatim>\<open>isup\<close> should return \<^verbatim>\<open>"Failed to get status."\<close> and raise nothing. The
  function does not do so for a 4xx or 5xx answer: with the answer 503, \<^verbatim>\<open>isup\<close> raises the
  \<open>HTTPError\<close> of \<^verbatim>\<open>raise_for_status\<close>, and the test of the status code behind the
  \<^verbatim>\<open>try\<close> is not reached.
\<close>

theorem isup_error_status:
  "requests_get (example_env (Inr resp_503) None) ''http://isup.me/example.com'' [] True
     = Inr resp_503 \<and>
   isup (example_env (Inr resp_503) None) ''example.com'' = Inl (HTTPError resp_503)"
  by (simp add: isup_def requests_get_def example_env_def example_urlsplit_def
        raise_for_status_def resp_503_def strip_def isspace_def)

text \<open>
  The fixed message is returned for a \<open>ConnectionError\<close>, and for an answer whose status
  is neither 200 nor in 400 to 599.
\<close>

lemma isup_failed:
  assumes "urlsplit e (strip text0) = Inr parts"
    and "domain = (if netloc parts \<noteq> [] then netloc parts else path parts)"
  shows "(requests_get e (''http://isup.me/'' @ domain) [] True = Inl ConnectionError \<longrightarrow>
            isup e text0 = Inr failed_to_get_status) \<and>
         (\<forall>r. requests_get e (''http://isup.me/'' @ domain) [] True = Inr r \<and>
               status_code r \<noteq> 200 \<and> \<not> (400 \<le> status_code r \<and> status_code r < 600) \<longrightarrow>
            isup e text0 = Inr failed_to_get_status)"
  using assms
  by (auto simp: isup_def raise_for_status_def Let_def codes_ok_def)

text \<open>
  Stripping does not change whether the text contains a marker that neither begins nor
  ends with a space, so the verdict is as well decided by the unstripped text.
\<close>

lemma str_contains_dropWhile:
  "m \<noteq> [] \<Longrightarrow> \<not> P (hd m) \<Longrightarrow> str_contains (dropWhile P s) m = str_contains s m"
proof (induction s)
  case Nil
  show ?case by simp
next
  case (Cons c cs)
  show ?case
  proof (cases "P c")
    case True
    then have "\<not> startswith (c # cs) m" using Cons.prems by (cases m) auto
    then show ?thesis using True Cons by simp
  next
    case False
    then show ?thesis by simp
  qed
qed

lemma str_contains_rev: "str_contains (rev s) (rev m) = str_contains s m"
proof -
  have "(\<exists>p q. rev s = p @ rev m @ q) = (\<exists>p q. s = p @ m @ q)"
  proof
    assume "\<exists>p q. rev s = p @ rev m @ q"
    then obtain p q where "rev s = p @ rev m @ q" by blast
    then have "rev (rev s) = rev (p @ rev m @ q)" by simp
    then have "s = rev q @ m @ rev p" by simp
    then show "\<exists>p q. s = p @ m @ q" by blast
  next
    assume "\<exists>p q. s = p @ m @ q"
    then obtain p q where "s = p @ m @ q" by blast
    then have "rev s = rev q @ rev m @ rev p" by simp
    then show "\<exists>p q. rev s = p @ rev m @ q" by blast
  qed
  then show ?thesis by (simp add: str_contains_iff)
qed

lemma str_contains_strip:
  assumes "m \<noteq> []" and "\<not> isspace (hd m)" and "\<not> isspace (last m)"
  shows "str_contains (strip s) m = str_contains s m"
proof -
  have r: "rev m \<noteq> []" "\<not> isspace (hd (rev m))"
    using assms by (simp_all add: hd_rev)
  have "str_contains (strip s) m =
      str_contains (dropWhile isspace (rev (dropWhile isspace s))) (rev m)"
    unfolding strip_def using str_contains_rev [of "dropWhile isspace (rev (dropWhile isspace s))" "rev m"]
    by simp
  also have "\<dots> = str_contains (rev (dropWhile isspace s)) (rev m)"
    using r by (rule str_contains_dropWhile)
  also have "\<dots> = str_contains (dropWhile isspace s) m"
    by (rule str_contains_rev)
  also have "\<dots> = str_contains s m"
    using assms(1,2) by (rule str_contains_dropWhile)
  finally show ?thesis .
qed

lemma strip_markers:
  "str_contains (strip s) ''not just you'' = str_contains s ''not just you''"
  "str_contains (strip s) ''is up'' = str_contains s ''is up''"
  by (rule str_contains_strip; simp add: isspace_def)+

text \<open>
  C8, as amended. For every input: when the status page is answered with status 200 and
  the page has a \<^verbatim>\<open>div\<close> with the id \<^verbatim>\<open>domain-main-content\<close>, the result of \<^verbatim>\<open>isup\<close> is decided
  by the stripped text of that \<^verbatim>\<open>div\<close>: the string \<^verbatim>\<open>It's not just you. <url> looks down from
  here!\<close> when it contains \<^verbatim>\<open>not just you\<close>, otherwise the string \<^verbatim>\<open>It's just you. <url> is
  up.\<close> when it contains \<^verbatim>\<open>is up\<close>, and otherwise \<^verbatim>\<open>Huh? That doesn't look like a site on the
  interweb.\<close> The words \<^verbatim>\<open>down\<close> and \<^verbatim>\<open>up\<close> stand between the control characters 2, 3 and the
  colour digit in front and 2, 15 behind, and \<^verbatim>\<open><url>\<close> is the stripped input.
\<close>

theorem isup_verdict:
  assumes "urlsplit e (strip text0) = Inr parts"
    and "requests_get e (''http://isup.me/'' @
           (if netloc parts \<noteq> [] then netloc parts else path parts)) [] True = Inr r"
    and "status_code r = 200"
    and "soup_find_text e (text_r r) ''div'' ''domain-main-content'' = Some t"
  shows "isup e text0 =
           Inr (if str_contains (strip t) ''not just you'' then
                  ''It's not just you. '' @ strip text0 @ '' looks '' @ [CHR 0x02, CHR 0x03]
                    @ ''4down'' @ [CHR 0x02, CHR 0x0F] @ '' from here!''
                else if str_contains (strip t) ''is up'' then
                  ''It's just you. '' @ strip text0 @ '' is '' @ [CHR 0x02, CHR 0x03]
                    @ ''3up'' @ [CHR 0x02, CHR 0x0F] @ ''.''
                else ''Huh? That doesn't look like a site on the interweb.'')"
  using assms
  by (simp add: isup_def raise_for_status_def Let_def codes_ok_def verdict_down_def
        verdict_up_def verdict_huh_def)

text \<open>
  C8 as stated fails: the status page is answered with status 200, but the page has no
  \<^verbatim>\<open>div\<close> with that id. \<^verbatim>\<open>find\<close> returns \<^verbatim>\<open>None\<close>, and \<^verbatim>\<open>.text\<close> raises \<open>AttributeError\<close>:
  \<^verbatim>\<open>isup\<close> returns none of the three strings.
\<close>

theorem isup_no_div_counterexample:
  "status_code resp_page = 200 \<and>
   requests_get (example_env (Inr resp_page) None) ''http://isup.me/example.com'' [] True
     = Inr resp_page \<and>
   soup_find_text (example_env (Inr resp_page) None) (text_r resp_page) ''div''
     ''domain-main-content'' = None \<and>
   isup (example_env (Inr resp_page) None) ''example.com'' = Inl AttributeError"
  by (simp add: isup_def requests_get_def example_env_def example_urlsplit_def
        raise_for_status_def resp_page_def strip_def isspace_def codes_ok_def)

text \<open>C8, as amended, on the three example pages, with the strings written out.\<close>

theorem isup_verdict_witness:
  "isup (example_env (Inr resp_page) (Some page_down)) '' http://example.com ''
     = Inr (''It's not just you. http://example.com looks '' @ [CHR 0x02, CHR 0x03]
            @ ''4down'' @ [CHR 0x02, CHR 0x0F] @ '' from here!'') \<and>
   isup (example_env (Inr resp_page) (Some page_up)) '' http://example.com ''
     = Inr (''It's just you. http://example.com is '' @ [CHR 0x02, CHR 0x03]
            @ ''3up'' @ [CHR 0x02, CHR 0x0F] @ ''.'') \<and>
   isup (example_env (Inr resp_page) (Some page_other)) '' http://example.com ''
     = Inr ''Huh? That doesn't look like a site on the interweb.''"
proof -
  have s: "strip '' http://example.com '' = ''http://example.com''"
    by (simp add: strip_def isspace_def)
  have p: "urlsplit (example_env (Inr resp_page) d) (strip '' http://example.com '')
      = Inr \<lparr>scheme = ''http'', netloc = ''example.com'', path = [], query = [], fragment = []\<rparr>"
    for d
    by (simp add: s example_env_def example_urlsplit_def)
  have g: "requests_get (example_env (Inr resp_page) d)
      (''http://isup.me/'' @
        (if netloc \<lparr>scheme = ''http'', netloc = ''example.com'', path = [], query = [],
                    fragment = []\<rparr> \<noteq> []
         then netloc \<lparr>scheme = ''http'', netloc = ''example.com'', path = [], query = [],
                    fragment = []\<rparr>
         else path \<lparr>scheme = ''http'', netloc = ''example.com'', path = [], query = [],
                    fragment = []\<rparr>)) [] True = Inr resp_page" for d
    by (simp add: requests_get_def example_env_def)
  have c: "status_code resp_page = 200" by (simp add: resp_page_def)
  have f: "soup_find_text (example_env (Inr resp_page) (Some t)) (text_r resp_page) ''div''
      ''domain-main-content'' = Some t" for t
    by (simp add: example_env_def)
  show ?thesis
    using isup_verdict [OF p g c f, of page_down] isup_verdict [OF p g c f, of page_up]
      isup_verdict [OF p g c f, of page_other]
    by (simp add: s strip_markers) (simp add: page_down_def page_up_def page_other_def)
qed

end
